theory Spec2Isabelle
  imports Main "HOL-Library.Word"
begin

chapter \<open>Definitions\<close>

section \<open>Protocol constants\<close>

text \<open>
  The constant blocks of package socks6. Go's \<open>byte\<close> is an 8-bit word; the \<open>iota\<close>
  blocks number their members from 0.
\<close>

type_synonym byte = "8 word"

definition CommandNoop :: byte where "CommandNoop = 0"
definition CommandConnect :: byte where "CommandConnect = 1"
definition CommandBind :: byte where "CommandBind = 2"
definition CommandUdpAssociate :: byte where "CommandUdpAssociate = 3"

definition AuthenticationReplySuccess :: byte where "AuthenticationReplySuccess = 0"
definition AuthenticationReplyFail :: byte where "AuthenticationReplyFail = 1"

definition OperationReplySuccess :: byte where "OperationReplySuccess = 0"
definition OperationReplyServerFailure :: byte where "OperationReplyServerFailure = 1"
definition OperationReplyNotAllowedByRule :: byte where "OperationReplyNotAllowedByRule = 2"
definition OperationReplyNetworkUnreachable :: byte where "OperationReplyNetworkUnreachable = 3"
definition OperationReplyHostUnreachable :: byte where "OperationReplyHostUnreachable = 4"
definition OperationReplyConnectionRefused :: byte where "OperationReplyConnectionRefused = 5"
definition OperationReplyTTLExpired :: byte where "OperationReplyTTLExpired = 6"
definition OperationReplyCommandNotSupported :: byte where "OperationReplyCommandNotSupported = 7"
definition OperationReplyAddressNotSupported :: byte where "OperationReplyAddressNotSupported = 8"
definition OperationReplyTimeout :: byte where "OperationReplyTimeout = 9"

section \<open>Dial errors and \<open>getReplyCode\<close> (utils.go)\<close>

text \<open>
  \<open>getReplyCode\<close> inspects the dynamic type of a Go \<open>error\<close>. The values it can tell
  apart are: \<open>nil\<close>; an error that is not a \<open>net.Error\<close>; a \<open>net.Error\<close> that is not a
  \<open>*net.OpError\<close>; and a \<open>*net.OpError\<close>, whose field \<open>Err\<close> is a \<open>*os.SyscallError\<close>
  or something else, the \<open>*os.SyscallError\<close> in turn wrapping a \<open>syscall.Errno\<close> or
  something else. The boolean of a \<open>net.Error\<close> is what its method \<open>Timeout()\<close> returns.
\<close>

datatype Errno = ENETUNREACH | EHOSTUNREACH | ECONNREFUSED | ETIMEDOUT | ErrnoOther nat

datatype SyscallErrorErr = IsErrno Errno | NotErrno

datatype OpErrorErr = SyscallError SyscallErrorErr | NotSyscallError

datatype dial_error =
    NotNetError
  | NetError bool
  | OpError bool OpErrorErr

text \<open>
  \<open>common.ConvertSocketErrno\<close> (it maps the WSA codes of Windows to errno values) is not
  part of the sources at hand; it is the parameter \<open>conv\<close>.
\<close>

fun getReplyCode :: "(Errno \<Rightarrow> Errno) \<Rightarrow> dial_error option \<Rightarrow> byte" where
  "getReplyCode conv None = OperationReplySuccess"
| "getReplyCode conv (Some NotNetError) = OperationReplyServerFailure"
| "getReplyCode conv (Some (NetError tmo)) =
     (if tmo then OperationReplyTimeout else OperationReplyServerFailure)"
| "getReplyCode conv (Some (OpError tmo inner)) =
     (if tmo then OperationReplyTimeout
      else (case inner of
              SyscallError t \<Rightarrow>
                (case t of
                   NotErrno \<Rightarrow> OperationReplyServerFailure
                 | IsErrno errno \<Rightarrow>
                     (case conv errno of
                        ENETUNREACH \<Rightarrow> OperationReplyNetworkUnreachable
                      | EHOSTUNREACH \<Rightarrow> OperationReplyHostUnreachable
                      | ECONNREFUSED \<Rightarrow> OperationReplyConnectionRefused
                      | ETIMEDOUT \<Rightarrow> OperationReplyTimeout
                      | ErrnoOther n \<Rightarrow> OperationReplyServerFailure))
            | NotSyscallError \<Rightarrow> OperationReplyServerFailure))"

text \<open>The errno a dial error carries down to the final switch, if it gets that far.\<close>

fun reached_errno :: "(Errno \<Rightarrow> Errno) \<Rightarrow> dial_error option \<Rightarrow> Errno option" where
  "reached_errno conv (Some (OpError False (SyscallError (IsErrno errno)))) = Some (conv errno)"
| "reached_errno conv err = None"

fun reports_timeout :: "dial_error option \<Rightarrow> bool" where
  "reports_timeout (Some (NetError tmo)) = tmo"
| "reports_timeout (Some (OpError tmo inner)) = tmo"
| "reports_timeout err = False"

section \<open>Text of the HTTP rejection (serverworker.go)\<close>

text \<open>
  Go strings are byte strings; \<open>strings.Join\<close> puts the separator between the elements
  and \<open>fmt.Sprintf("%d", n)\<close> prints a non-negative length in decimal.
\<close>

definition CR :: char where "CR = CHR 0x0D"
definition LF :: char where "LF = CHR 0x0A"
definition DQUOTE :: char where "DQUOTE = CHR 0x22"

fun Join :: "string list \<Rightarrow> string \<Rightarrow> string" where
  "Join [] sep = []"
| "Join [x] sep = x"
| "Join (x # y # xs) sep = x @ sep @ Join (y # xs) sep"

function Sprintf_d :: "nat \<Rightarrow> string" where
  "Sprintf_d n =
     (if n < 10 then [''0123456789'' ! n]
      else Sprintf_d (n div 10) @ [''0123456789'' ! (n mod 10)])"
  by pat_completeness auto
termination
  by (relation "measure id") auto

definition notHttpProxyMsg :: string where
  "notHttpProxyMsg = ''This is a SOCKS 6 proxy, not a HTTP proxy''"

definition httpDoc :: string where
  "httpDoc = Join [
     ''<!DOCTYPE html>'',
     ''<html><head>'',
     ''<title>500 Internal Server Error</title>'',
     ''</head><body>'',
     ''<h1>500 Internal Server Error</h1>'',
     ''<p>'' @ notHttpProxyMsg @ ''</p>'',
     ''</body></html>''] [CR, LF]"

definition httpReply :: string where
  "httpReply = Join [
     ''HTTP/1.0 500 Internal Server Error'',
     ''Proxy-Status: SOCKS6Server; error=proxy_configuration_error; details='' @ [DQUOTE]
        @ notHttpProxyMsg @ [DQUOTE],
     ''Content-Type: text/html'',
     ''Content-Length: '' @ Sprintf_d (length httpDoc),
     ''Connection: close'',
     [],
     httpDoc] [CR, LF]"

definition bytes_of :: "string \<Rightarrow> byte list" where
  "bytes_of s = map of_char s"

text \<open>
  A reader of HTTP message heads, to say what a client receives: \<open>read_head\<close> cuts the
  text at each CR LF until the first empty line and returns the lines before it (the
  status line first) and the body after it; \<open>header_value\<close> finds a header by name and
  \<open>decimal_value\<close> reads a decimal number.
\<close>

fun read_head :: "string \<Rightarrow> string \<Rightarrow> string list \<Rightarrow> (string list \<times> string) option" where
  "read_head [] cur acc = None"
| "read_head (c # s) cur acc =
     (if c = LF \<and> cur \<noteq> [] \<and> hd cur = CR
      then (if tl cur = [] then Some (rev acc, s) else read_head s [] (rev (tl cur) # acc))
      else read_head s (c # cur) acc)"

fun strip_prefix :: "string \<Rightarrow> string \<Rightarrow> string option" where
  "strip_prefix [] s = Some s"
| "strip_prefix (p # ps) [] = None"
| "strip_prefix (p # ps) (c # s) = (if p = c then strip_prefix ps s else None)"

fun header_value :: "string \<Rightarrow> string list \<Rightarrow> string option" where
  "header_value name [] = None"
| "header_value name (l # ls) =
     (case strip_prefix (name @ '': '') l of
        Some v \<Rightarrow> Some v
      | None \<Rightarrow> header_value name ls)"

fun digit_value :: "char \<Rightarrow> nat option" where
  "digit_value c = (if c \<in> set ''0123456789'' then Some (of_char c - 48) else None)"

fun decimal_value :: "nat \<Rightarrow> string \<Rightarrow> nat option" where
  "decimal_value acc [] = Some acc"
| "decimal_value acc (c # s) =
     (case digit_value c of
        None \<Rightarrow> None
      | Some d \<Rightarrow> decimal_value (10 * acc + d) s)"

section \<open>Messages, results and the observable events of a stream\<close>

text \<open>
  The wire codec (package message) is outside the sources at hand. An option is kept as
  its typed data; its kind is the kind the codec files that data under, so that the type
  assertions the worker makes after \<open>GetData\<close> cannot fail. \<open>GetData\<close> returns the first
  option of a kind.
\<close>

datatype SocksOption =
    AuthenticationMethodAdvertisement nat
  | AuthenticationMethodSelection byte
  | AuthenticationData byte "byte list"
  | StreamID "32 word"
  | OtherOption nat

datatype OptionKind =
    OptionKindAuthenticationMethodAdvertisement
  | OptionKindAuthenticationMethodSelection
  | OptionKindAuthenticationData
  | OptionKindStreamID
  | OptionKindOther nat

fun Kind :: "SocksOption \<Rightarrow> OptionKind" where
  "Kind (AuthenticationMethodAdvertisement n) = OptionKindAuthenticationMethodAdvertisement"
| "Kind (AuthenticationMethodSelection m) = OptionKindAuthenticationMethodSelection"
| "Kind (AuthenticationData m d) = OptionKindAuthenticationData"
| "Kind (StreamID i) = OptionKindStreamID"
| "Kind (OtherOption k) = OptionKindOther k"

fun GetData :: "SocksOption list \<Rightarrow> OptionKind \<Rightarrow> SocksOption option" where
  "GetData [] k = None"
| "GetData (x # xs) k = (if Kind x = k then Some x else GetData xs k)"

record Request =
  CommandCode :: byte
  Endpoint :: string
  ReqOptions :: "SocksOption list"

record AuthenticationReply =
  Type :: byte
  Options :: "SocksOption list"

text \<open>\<open>MethodData\<close> is a byte slice: \<open>None\<close> is Go's \<open>nil\<close>.\<close>

record ServerAuthenticationResult =
  Success :: bool
  Continue :: bool
  SelectedMethod :: byte
  MethodData :: "byte list option"
  SessionID :: "byte list"
  ClientName :: string

record ErrVersionMismatch =
  Version :: byte
  ConsumedBytes :: "byte list"

text \<open>
  A parse error, classified by the two tests \<open>handleRequestError\<close> makes, in the order
  it makes them: \<open>errors.As\<close> finds an \<open>ErrVersionMismatch\<close>; else \<open>errors.Is\<close> finds
  \<open>ErrAddressTypeNotSupport\<close>; else neither.
\<close>

datatype parse_error =
    IsErrVersionMismatch ErrVersionMismatch
  | IsErrAddressTypeNotSupport
  | OtherParseError

text \<open>
  What is written to a stream: raw bytes, or the marshalled form of a reply (the codec's
  \<open>Marshal\<close>, kept symbolic). What a run does that can be observed is a list of events,
  in the order in which they happen.
\<close>

datatype payload =
    Raw "byte list"
  | MarshalAuthenticationReply AuthenticationReply
  | MarshalOperationReply byte

datatype event =
    ConnWrite payload
  | ConnClose
  | SessionConnClose "byte list"
  | CommandHandlerCall byte
  | Panic

record SocksConn =
  ConnRequest :: Request
  ClientId :: string
  Session :: "byte list"
  InitialData :: "byte list option"
  StreamId :: "32 word"

text \<open>
  The authenticator is pluggable: its two calls are functions of the request. An error
  of \<open>ContinueAuthenticate\<close> is \<open>None\<close>.
\<close>

record ServerAuthenticator =
  Authenticate :: "Request \<Rightarrow> ServerAuthenticationResult"
  ContinueAuthenticate :: "Request \<Rightarrow> ServerAuthenticationResult option"

text \<open>
  Of the structs \<open>backlogBindWorker\<close> and \<open>udpAssociation\<close> (declared outside the sources
  at hand) the worker reads the fields below; \<open>localAddr\<close> is \<open>udp.LocalAddr().String()\<close>.
\<close>

record backlogBindWorker =
  bl_alive :: bool

record udpAssociation =
  alive :: bool
  pair :: string
  icmpOn :: bool
  localAddr :: string

text \<open>
  \<open>common.SyncMap\<close> is a concurrent map; here it is the list of its entries, one entry
  per key. \<open>Range\<close> calls the function on each entry of the map as it was when the walk
  began and stops when the function returns false; the function changes the worker.
\<close>

type_synonym ('k, 'v) SyncMap = "('k \<times> 'v) list"

definition Load :: "('k, 'v) SyncMap \<Rightarrow> 'k \<Rightarrow> 'v option" where
  "Load m k = map_of m k"

definition Delete :: "('k, 'v) SyncMap \<Rightarrow> 'k \<Rightarrow> ('k, 'v) SyncMap" where
  "Delete m k = filter (\<lambda>kv. fst kv \<noteq> k) m"

fun Range :: "('k, 'v) SyncMap \<Rightarrow> ('k \<Rightarrow> 'v \<Rightarrow> 's \<Rightarrow> bool \<times> 's) \<Rightarrow> 's \<Rightarrow> 's" where
  "Range [] f s = s"
| "Range (kv # m) f s =
     (case f (fst kv) (snd kv) s of
        (continue, s') \<Rightarrow> if continue then Range m f s' else s')"

text \<open>
  A command handler and the version error handler are functions supplied by the user;
  what they do to the stream is the list of events they return.
\<close>

record ServerWorker =
  Authenticator :: ServerAuthenticator
  Rule :: "(SocksConn \<Rightarrow> bool) option"
  CommandHandlers :: "byte \<Rightarrow> (SocksConn \<Rightarrow> event list) option"
  VersionErrorHandler :: "ErrVersionMismatch \<Rightarrow> event list"
  IgnoreFragmentedRequest :: bool
  backlogWorker :: "(string, backlogBindWorker) SyncMap"
  reservedUdpAddr :: "(string, 64 word) SyncMap"
  udpAssociation :: "(64 word, udpAssociation) SyncMap"

text \<open>
  The accepted stream, as the worker meets it: what the codec parses from it (the
  argument says whether the reader that refuses fragmented requests wraps the stream),
  what a read of \<open>n\<close> further bytes gives (\<open>None\<close>: an error), and whether the write
  number \<open>i\<close> of the handshake succeeds.
\<close>

record Stream =
  ParseRequestFrom :: "bool \<Rightarrow> parse_error + Request"
  Read :: "nat \<Rightarrow> byte list option"
  WriteOk :: "nat \<Rightarrow> bool"

text \<open>\<open>io.ReadFull\<close> into an empty buffer reads nothing and cannot fail.\<close>

definition io_ReadFull :: "Stream \<Rightarrow> nat \<Rightarrow> byte list option" where
  "io_ReadFull conn n = (if n = 0 then Some [] else Read conn n)"

section \<open>The version error handler (serverworker.go)\<close>

definition ReplyVersionSpecificError :: "ErrVersionMismatch \<Rightarrow> event list" where
  "ReplyVersionSpecificError ver =
     (if Version ver = 4 then [ConnWrite (Raw [0, 91])]
      else if Version ver = 5 then [ConnWrite (Raw [5, 0xff])]
      else if Version ver = 6 then [ConnWrite (Raw [6])]
      else if Version ver \<in> set (bytes_of ''cCdDgGhHoOpPtT'')
      then [ConnWrite (Raw (bytes_of httpReply))]
      else [ConnWrite (Raw [6])])
     @ [ConnClose]"

section \<open>The handshake driver (serverworker.go)\<close>

text \<open>
  Modelled from the spec: \<open>common.CancellableDefer\<close> is not part of the sources at hand.
  It is the scoped-close guard of the driver: the deferred action runs when the function
  leaves, unless the guard was cancelled before.
\<close>

record CancellableDefer =
  deferred :: "event list"
  cancelled :: bool

definition NewCancellableDefer :: "event list \<Rightarrow> CancellableDefer" where
  "NewCancellableDefer f = \<lparr>deferred = f, cancelled = False\<rparr>"

definition Cancel :: "CancellableDefer \<Rightarrow> CancellableDefer" where
  "Cancel d = d\<lparr>cancelled := True\<rparr>"

definition Defer :: "CancellableDefer \<Rightarrow> event list" where
  "Defer d = (if cancelled d then [] else deferred d)"

text \<open>
  The constructors of replies belong to the codec: a new reply has the given type and an
  empty option set, and \<open>Add\<close> appends an option. The type of the reply that
  \<open>NewAuthenticationReply\<close> makes is overwritten at its only use.
\<close>

definition NewAuthenticationReplyWithType :: "byte \<Rightarrow> AuthenticationReply" where
  "NewAuthenticationReplyWithType t = \<lparr>Type = t, Options = []\<rparr>"

definition NewAuthenticationReply :: AuthenticationReply where
  "NewAuthenticationReply = NewAuthenticationReplyWithType AuthenticationReplyFail"

definition Add :: "AuthenticationReply \<Rightarrow> SocksOption \<Rightarrow> AuthenticationReply" where
  "Add arep opt = arep\<lparr>Options := Options arep @ [opt]\<rparr>"

definition setAuthMethodInfo ::
  "AuthenticationReply \<Rightarrow> ServerAuthenticationResult \<Rightarrow> AuthenticationReply" where
  "setAuthMethodInfo arep result =
     (let arep1 = (if SelectedMethod result \<noteq> 0 \<and> SelectedMethod result \<noteq> 0xff
                   then Add arep (AuthenticationMethodSelection (SelectedMethod result))
                   else arep)
      in (case MethodData result of
            Some d \<Rightarrow> Add arep1 (AuthenticationData (SelectedMethod result) d)
          | None \<Rightarrow> arep1))"

definition handleRequestError ::
  "('a ServerWorker_scheme) \<Rightarrow> parse_error \<Rightarrow> event list" where
  "handleRequestError s err =
     (case err of
        IsErrVersionMismatch evm \<Rightarrow> VersionErrorHandler s evm
      | IsErrAddressTypeNotSupport \<Rightarrow>
          [ConnWrite (MarshalAuthenticationReply
                        (NewAuthenticationReplyWithType AuthenticationReplyFail)),
           ConnWrite (MarshalOperationReply OperationReplyAddressNotSupported)]
          @ [ConnClose]
      | OtherParseError \<Rightarrow> [] @ [ConnClose])"

text \<open>
  \<open>authn\<close> returns the result it hands on (\<open>None\<close> is the \<open>nil\<close> it returns when a write
  fails or stage two ends in an error) and the writes it made. Its writes are the first
  of the handshake, numbers 0 and 1.
\<close>

definition authn ::
  "('a ServerWorker_scheme) \<Rightarrow> Stream \<Rightarrow> Request
   \<Rightarrow> ServerAuthenticationResult option \<times> event list" where
  "authn s conn req =
     (let result1 = Authenticate (Authenticator s) req in
      if Success result1 then
        (let reply = setAuthMethodInfo
                       (NewAuthenticationReplyWithType AuthenticationReplySuccess) result1;
             w = [ConnWrite (MarshalAuthenticationReply reply)]
         in if \<not> WriteOk conn 0 then (None, w) else (Some result1, w))
      else if \<not> Continue result1 then
        (let reply = NewAuthenticationReplyWithType AuthenticationReplyFail;
             w = [ConnWrite (MarshalAuthenticationReply reply)]
         in if \<not> WriteOk conn 0 then (None, w) else (Some result1, w))
      else
        (let reply1 = setAuthMethodInfo
                        (NewAuthenticationReplyWithType AuthenticationReplyFail) result1;
             w1 = [ConnWrite (MarshalAuthenticationReply reply1)]
         in if \<not> WriteOk conn 0 then (None, w1)
            else (case ContinueAuthenticate (Authenticator s) req of
                    None \<Rightarrow>
                      (None, w1 @ [ConnWrite (MarshalAuthenticationReply
                                     (NewAuthenticationReplyWithType AuthenticationReplyFail))])
                  | Some result2 \<Rightarrow>
                      (let reply0 = setAuthMethodInfo NewAuthenticationReply result2;
                           reply = (if Success result2
                                    then reply0\<lparr>Type := AuthenticationReplySuccess\<rparr>
                                    else reply0\<lparr>Type := AuthenticationReplyFail\<rparr>);
                           w2 = w1 @ [ConnWrite (MarshalAuthenticationReply reply)]
                       in if \<not> WriteOk conn 1 then (None, w2) else (Some result2, w2)))))"

text \<open>
  \<open>handshakeStream\<close> returns the triple of the source (the \<open>SocksConn\<close>, the command code
  and the authentication result, \<open>None\<close> for \<open>nil\<close>) and the events of the run; the
  deferred \<open>closeConn.Defer()\<close> ends every path.
\<close>

definition handshakeStream ::
  "('a ServerWorker_scheme) \<Rightarrow> Stream \<Rightarrow> ServerAuthenticationResult option
   \<Rightarrow> (SocksConn option \<times> byte \<times> ServerAuthenticationResult option) \<times> event list" where
  "handshakeStream s conn prevAuth =
     (let closeConn = NewCancellableDefer [ConnClose] in
      case ParseRequestFrom conn (IgnoreFragmentedRequest s \<and> prevAuth \<noteq> None) of
        Inl err \<Rightarrow>
          (let closeConn = Cancel closeConn
           in ((None, 0, None), handleRequestError s err @ Defer closeConn))
      | Inr req \<Rightarrow>
          (case (case GetData (ReqOptions req) OptionKindAuthenticationMethodAdvertisement of
                   Some (AuthenticationMethodAdvertisement initDataLen) \<Rightarrow>
                     (case io_ReadFull conn initDataLen of
                        None \<Rightarrow> Inl ()
                      | Some d \<Rightarrow> Inr (Some d))
                 | _ \<Rightarrow> Inr None) of
             Inl u \<Rightarrow> ((None, 0, None), Defer closeConn)
           | Inr initData \<Rightarrow>
               (case (case prevAuth of
                        None \<Rightarrow> authn s conn req
                      | Some p \<Rightarrow> (Some p, [])) of
                  (None, evs) \<Rightarrow> ((None, 0, None), evs @ Defer closeConn)
                | (Some authResult, evs) \<Rightarrow>
                    if prevAuth = None \<and> \<not> Success authResult
                    then ((None, 0, None), evs @ Defer closeConn)
                    else
                      (let cc = \<lparr>ConnRequest = req,
                                 ClientId = ClientName authResult,
                                 Session = SessionID authResult,
                                 InitialData = initData,
                                 StreamId = (case GetData (ReqOptions req) OptionKindStreamID of
                                               Some (StreamID sidVal) \<Rightarrow> sidVal
                                             | _ \<Rightarrow> 0)\<rparr>
                       in if (case Rule s of None \<Rightarrow> False | Some rule \<Rightarrow> \<not> rule cc)
                          then ((None, CommandCode req, Some authResult),
                                evs @ [ConnWrite (MarshalOperationReply
                                                    OperationReplyNotAllowedByRule)]
                                    @ Defer closeConn)
                          else if CommandHandlers s (CommandCode req) = None
                          then ((None, CommandCode req, Some authResult),
                                evs @ [ConnWrite (MarshalOperationReply
                                                    OperationReplyCommandNotSupported)]
                                    @ Defer closeConn)
                          else ((Some cc, CommandCode req, Some authResult),
                                evs @ Defer (Cancel closeConn))))))"

text \<open>
  \<open>ServeStream\<close>: the events of the handshake, then either the close of the early return
  or the call of the handler followed by the deferred \<open>SessionConnClose\<close>. Calling a
  handler the map does not hold is a call of a nil function.
\<close>

definition ServeStream :: "('a ServerWorker_scheme) \<Rightarrow> Stream \<Rightarrow> event list" where
  "ServeStream s conn =
     (case handshakeStream s conn None of
        ((cc, cmd, ar), evs) \<Rightarrow>
          (case (ar, cc) of
             (Some a, Some c) \<Rightarrow>
               if \<not> Success a then evs @ [ConnClose]
               else evs
                    @ (case CommandHandlers s cmd of
                         None \<Rightarrow> [Panic]
                       | Some handler \<Rightarrow> CommandHandlerCall cmd # handler c)
                    @ [SessionConnClose (SessionID a)]
           | _ \<Rightarrow> evs @ [ConnClose]))"

text \<open>
  \<open>NewServerWorker\<close>; the default authenticator and the four handlers are defined outside
  the sources at hand and are its parameters here.
\<close>

definition NewServerWorker ::
  "ServerAuthenticator \<Rightarrow> (SocksConn \<Rightarrow> event list) \<Rightarrow> (SocksConn \<Rightarrow> event list)
   \<Rightarrow> (SocksConn \<Rightarrow> event list) \<Rightarrow> (SocksConn \<Rightarrow> event list) \<Rightarrow> ServerWorker" where
  "NewServerWorker defaultAuth NoopHandler ConnectHandler BindHandler UdpAssociateHandler =
     \<lparr>Authenticator = defaultAuth,
      Rule = None,
      CommandHandlers = [CommandNoop \<mapsto> NoopHandler,
                         CommandConnect \<mapsto> ConnectHandler,
                         CommandBind \<mapsto> BindHandler,
                         CommandUdpAssociate \<mapsto> UdpAssociateHandler],
      VersionErrorHandler = ReplyVersionSpecificError,
      IgnoreFragmentedRequest = False,
      backlogWorker = [],
      reservedUdpAddr = [],
      udpAssociation = []\<rparr>"

chapter \<open>Theorems\<close>

section \<open>\<open>getReplyCode\<close>\<close>

lemmas OperationReply_defs =
  OperationReplySuccess_def OperationReplyServerFailure_def OperationReplyNotAllowedByRule_def
  OperationReplyNetworkUnreachable_def OperationReplyHostUnreachable_def
  OperationReplyConnectionRefused_def OperationReplyTTLExpired_def
  OperationReplyCommandNotSupported_def OperationReplyAddressNotSupported_def
  OperationReplyTimeout_def

lemma getReplyCode_cases:
  "getReplyCode conv err =
     (if err = None then OperationReplySuccess
      else if reports_timeout err then OperationReplyTimeout
      else (case reached_errno conv err of
              Some ENETUNREACH \<Rightarrow> OperationReplyNetworkUnreachable
            | Some EHOSTUNREACH \<Rightarrow> OperationReplyHostUnreachable
            | Some ECONNREFUSED \<Rightarrow> OperationReplyConnectionRefused
            | Some ETIMEDOUT \<Rightarrow> OperationReplyTimeout
            | _ \<Rightarrow> OperationReplyServerFailure))"
proof (cases err)
  case None
  then show ?thesis by simp
next
  case (Some e)
  show ?thesis
  proof (cases e)
    case NotNetError
    with Some show ?thesis by simp
  next
    case (NetError tmo)
    with Some show ?thesis by simp
  next
    case (OpError tmo inner)
    with Some show ?thesis
      by (cases tmo; cases inner) (auto split: SyscallErrorErr.splits Errno.splits)
  qed
qed

text \<open>
  C2, as stated, fails: the claim promises the reply code TTLExpired for a TTL-expired dial
  error, but no error value at all is converted to TTLExpired.
\<close>

theorem getReplyCode_ttl_counterexample:
  "\<not> (\<exists>conv err. getReplyCode conv err = OperationReplyTTLExpired)"
proof
  assume "\<exists>conv err. getReplyCode conv err = OperationReplyTTLExpired"
  then obtain conv err where h: "getReplyCode conv err = OperationReplyTTLExpired"
    by blast
  show False
    using h unfolding getReplyCode_cases [of conv err]
    by (simp add: OperationReply_defs split: if_splits option.splits Errno.splits)
qed

text \<open>
  C2, amended: the conversion yields Success exactly when the error is nil; Timeout when
  the error is a \<open>net.Error\<close> whose \<open>Timeout()\<close> holds, or when the errno reached is
  ETIMEDOUT; NetworkUnreachable, HostUnreachable and ConnectionRefused when the errno
  reached is ENETUNREACH, EHOSTUNREACH and ECONNREFUSED; ServerFailure for every other
  error; and it never yields TTLExpired.
\<close>

theorem getReplyCode_table:
  "(getReplyCode conv err = OperationReplySuccess) = (err = None)
   \<and> (getReplyCode conv err = OperationReplyTimeout) =
       (reports_timeout err \<or> reached_errno conv err = Some ETIMEDOUT)
   \<and> (getReplyCode conv err = OperationReplyNetworkUnreachable) =
       (\<not> reports_timeout err \<and> reached_errno conv err = Some ENETUNREACH)
   \<and> (getReplyCode conv err = OperationReplyHostUnreachable) =
       (\<not> reports_timeout err \<and> reached_errno conv err = Some EHOSTUNREACH)
   \<and> (getReplyCode conv err = OperationReplyConnectionRefused) =
       (\<not> reports_timeout err \<and> reached_errno conv err = Some ECONNREFUSED)
   \<and> (getReplyCode conv err = OperationReplyServerFailure) =
       (err \<noteq> None \<and> \<not> reports_timeout err
        \<and> reached_errno conv err \<notin> Some ` {ENETUNREACH, EHOSTUNREACH, ECONNREFUSED, ETIMEDOUT})
   \<and> getReplyCode conv err \<noteq> OperationReplyTTLExpired"
proof (cases err)
  case None
  then show ?thesis by (simp add: OperationReply_defs)
next
  case (Some e)
  show ?thesis
  proof (cases e)
    case NotNetError
    with Some show ?thesis by (simp add: OperationReply_defs)
  next
    case (NetError tmo)
    with Some show ?thesis by (cases tmo) (simp_all add: OperationReply_defs)
  next
    case (OpError tmo inner)
    show ?thesis
    proof (cases tmo)
      case True
      with Some OpError show ?thesis by (simp add: OperationReply_defs)
    next
      case False
      show ?thesis
      proof (cases inner)
        case NotSyscallError
        with Some OpError False show ?thesis by (simp add: OperationReply_defs)
      next
        case (SyscallError t)
        show ?thesis
        proof (cases t)
          case NotErrno
          with Some OpError False SyscallError show ?thesis
            by (simp add: OperationReply_defs)
        next
          case (IsErrno errno)
          with Some OpError False SyscallError show ?thesis
            by (cases "conv errno") (simp_all add: OperationReply_defs image_iff)
        qed
      qed
    qed
  qed
qed

theorem getReplyCode_table_witness:
  "getReplyCode id (Some (OpError False (SyscallError (IsErrno ECONNREFUSED))))
     = OperationReplyConnectionRefused
   \<and> getReplyCode id (Some (OpError False (SyscallError (IsErrno ECONNREFUSED))))
     \<noteq> OperationReplyTTLExpired"
  using getReplyCode_table [of id "Some (OpError False (SyscallError (IsErrno ECONNREFUSED)))"]
  by simp

end
